theory Spec2Isabelle
  imports Main
begin

section \<open>Python values\<close>

text \<open>
  A Python \<open>str\<close> is a sequence of Unicode code points, so it is modelled as a list of
  natural numbers; \<open>py\<close> reads an ASCII literal of the source.
\<close>

type_synonym pystr = "nat list"

definition py :: "string \<Rightarrow> pystr" where
  "py s = map of_char s"

text \<open>
  \<open>str.lower\<close> and \<open>str.strip\<close> consult the Unicode character database, which is
  not part of the repository. Their behaviour on ASCII is written out; the lower-case
  mapping and the white-space property of the code points from 128 on are parameters.
\<close>

record unicode =
  ulower :: "nat \<Rightarrow> pystr"
  uspace :: "nat \<Rightarrow> bool"

definition ascii_lower :: "nat \<Rightarrow> nat" where
  "ascii_lower c = (if 65 \<le> c \<and> c \<le> 90 then c + 32 else c)"

definition lower_char :: "unicode \<Rightarrow> nat \<Rightarrow> pystr" where
  "lower_char u c = (if c < 128 then [ascii_lower c] else ulower u c)"

definition lower :: "unicode \<Rightarrow> pystr \<Rightarrow> pystr" where
  "lower u s = concat (map (lower_char u) s)"

definition is_space :: "unicode \<Rightarrow> nat \<Rightarrow> bool" where
  "is_space u c =
     (if c < 128 then (9 \<le> c \<and> c \<le> 13) \<or> (28 \<le> c \<and> c \<le> 32) else uspace u c)"

definition strip :: "unicode \<Rightarrow> pystr \<Rightarrow> pystr" where
  "strip u s = rev (dropWhile (is_space u) (rev (dropWhile (is_space u) s)))"

text \<open>The character class \<open>[a-z0-9]\<close> of the regular expression in \<open>main\<close>.\<close>

definition is_az09 :: "nat \<Rightarrow> bool" where
  "is_az09 c = ((97 \<le> c \<and> c \<le> 122) \<or> (48 \<le> c \<and> c \<le> 57))"

text \<open>\<open>re.sub(r"[^a-z0-9]", "", title.lower())[:20]\<close>\<close>

definition sanitize :: "unicode \<Rightarrow> pystr \<Rightarrow> pystr" where
  "sanitize u title = take 20 (filter is_az09 (lower u title))"

text \<open>The decimal text of an integer, as an f-string formats it.\<close>

function str_of_nat :: "nat \<Rightarrow> pystr" where
  "str_of_nat n = (if n < 10 then [48 + n] else str_of_nat (n div 10) @ [48 + n mod 10])"
  by pat_completeness auto
termination
  by (relation "measure id") auto

declare str_of_nat.simps [simp del]

definition str_of_int :: "int \<Rightarrow> pystr" where
  "str_of_int i = (if i < 0 then 45 # str_of_nat (nat (- i)) else str_of_nat (nat i))"

text \<open>
  A float is kept symbolically: \<open>Float m e\<close> is the finite double \<open>m * 2^e\<close>, and
  \<open>FloatOfDecimal n s\<close> is \<open>float(Decimal(n * 10^-s))\<close>, whose rounding is not computed.
\<close>

datatype pyfloat = Float int int | FloatOfDecimal int nat

text \<open>
  The values \<open>json.loads\<close> returns and \<open>json.dumps\<close> accepts. A dict is an
  association list; \<open>map_of\<close> reads it.
\<close>

datatype json =
    JNull
  | JBool bool
  | JInt int
  | JFloat pyfloat
  | JStr pystr
  | JArr "json list"
  | JObj "(pystr \<times> json) list"

text \<open>An exception: its class and its message (\<open>str(e)\<close>).\<close>

datatype exn = Exn string pystr

fun str_exn :: "exn \<Rightarrow> pystr" where
  "str_exn (Exn cls msg) = msg"

text \<open>Truth value of an object, as \<open>not x\<close> and \<open>bool(x)\<close> take it.\<close>

fun truthy :: "json \<Rightarrow> bool" where
  "truthy JNull = False"
| "truthy (JBool b) = b"
| "truthy (JInt i) = (i \<noteq> 0)"
| "truthy (JFloat (Float m e)) = (m \<noteq> 0)"
| "truthy (JFloat (FloatOfDecimal n s)) = (n \<noteq> 0)"
| "truthy (JStr s) = (s \<noteq> [])"
| "truthy (JArr xs) = (xs \<noteq> [])"
| "truthy (JObj kvs) = (kvs \<noteq> [])"

fun is_str :: "json \<Rightarrow> bool" where
  "is_str (JStr s) = True"
| "is_str v = False"

fun type_name :: "json \<Rightarrow> string" where
  "type_name JNull = ''NoneType''"
| "type_name (JBool b) = ''bool''"
| "type_name (JInt i) = ''int''"
| "type_name (JFloat x) = ''float''"
| "type_name (JStr s) = ''str''"
| "type_name (JArr xs) = ''list''"
| "type_name (JObj kvs) = ''dict''"

text \<open>
  The code point 39 is the apostrophe.
  \<open>obj.get(key)\<close>: on a dict the value or \<open>None\<close>; any other object has no attribute
  \<open>get\<close> and the call raises \<open>AttributeError\<close>.
\<close>

fun py_get :: "json \<Rightarrow> pystr \<Rightarrow> exn + json" where
  "py_get (JObj kvs) k = Inr (case map_of kvs k of None \<Rightarrow> JNull | Some v \<Rightarrow> v)"
| "py_get v k =
     Inl (Exn ''AttributeError''
       ([39] @ py (type_name v) @ py '' object has no attribute '' @ [39] @ py ''get'' @ [39]))"

section \<open>HTTP\<close>

text \<open>
  \<open>get_json\<close> returns the parsed body or raises \<open>ValueError\<close>: \<open>req_json\<close> is
  \<open>None\<close> for a body that is not valid JSON.
\<close>

record http_request =
  req_json :: "json option"

text \<open>
  The body of a response is a text, or the text \<open>json.dumps\<close> produces from a value
  (the serialisation itself is not modelled).
\<close>

datatype body = Text pystr | JsonDumps json

record http_response =
  body :: body
  mimetype :: string
  status_code :: nat

definition text_response :: "pystr \<Rightarrow> nat \<Rightarrow> http_response" where
  "text_response msg code = \<lparr>body = Text msg, mimetype = ''text/plain'', status_code = code\<rparr>"

definition json_response :: "json \<Rightarrow> nat \<Rightarrow> http_response" where
  "json_response v code =
     \<lparr>body = JsonDumps v, mimetype = ''application/json'', status_code = code\<rparr>"

type_synonym env = "pystr \<rightharpoonup> pystr"

definition environ_get :: "env \<Rightarrow> pystr \<Rightarrow> pystr \<Rightarrow> pystr" where
  "environ_get env k d = (case env k of None \<Rightarrow> d | Some v \<Rightarrow> v)"

section \<open>The cloud services behind the SDK clients\<close>

record storage_params =
  sp_sku :: pystr
  sp_kind :: pystr
  sp_location :: pystr
  sp_enable_https_traffic_only :: bool

record storage_account =
  sa_params :: storage_params
  sa_keys :: "pystr list"

record cog_params =
  cp_location :: pystr
  cp_sku :: pystr
  cp_kind :: pystr

record cog_account =
  ca_params :: cog_params
  ca_primary_key :: pystr

datatype field_type = String | Single | Collection field_type

datatype field_helper = SimpleField | SearchableField

text \<open>
  A field of the index: the helper the source calls and the keyword arguments it gives;
  an argument the source leaves out is \<open>False\<close> or \<open>None\<close>.
\<close>

record search_field =
  sf_helper :: field_helper
  sf_name :: pystr
  sf_ftype :: field_type
  sf_key :: bool
  sf_searchable :: bool
  sf_filterable :: bool
  sf_facetable :: bool
  sf_analyzer_name :: "pystr option"
  sf_vector_search_dimensions :: "nat option"
  sf_vector_search_configuration :: "pystr option"

record algorithm_configuration =
  ac_name :: pystr
  ac_kind :: pystr
  ac_parameters :: "(pystr \<times> int) list"

record search_index =
  ix_name :: pystr
  ix_fields :: "search_field list"
  ix_vector_search :: "algorithm_configuration list"

text \<open>Every call the handler makes to the SDK, with its arguments.\<close>

datatype sdk_call =
    DefaultAzureCredential
  | StorageManagementClient pystr
  | CognitiveServicesManagementClient pystr
  | StorageGetProperties pystr pystr
  | StorageBeginCreate pystr pystr storage_params
  | StorageListKeys pystr pystr
  | AccountsGet pystr pystr
  | AccountsBeginCreate pystr pystr cog_params
  | AccountsListKeys pystr pystr
  | SearchIndexClient pystr pystr
  | CreateOrUpdateIndex pystr pystr search_index

text \<open>
  The services are outside the repository. They are modelled by their documented
  operations on a state: the accounts of each resource group, by name, and the indexes of
  each search endpoint. \<open>new_storage_keys\<close> and \<open>new_cog_key\<close> are the keys the
  provider gives to an account it creates; \<open>faults\<close> tells which calls fail (network,
  authorisation, quota) and with which exception; \<open>calls\<close> records the calls made.
  \<open>AZURE_STORAGE_ACCOUNT_KEY\<close> is the module's global variable.
\<close>

record world =
  storage_accounts :: "pystr \<times> pystr \<rightharpoonup> storage_account"
  cog_accounts :: "pystr \<times> pystr \<rightharpoonup> cog_account"
  indexes :: "pystr \<times> pystr \<rightharpoonup> search_index"
  new_storage_keys :: "pystr \<times> pystr \<Rightarrow> pystr list"
  new_cog_key :: "pystr \<times> pystr \<Rightarrow> pystr"
  faults :: "sdk_call \<Rightarrow> exn option"
  calls :: "sdk_call list"
  AZURE_STORAGE_ACCOUNT_KEY :: "pystr option"

definition not_found :: "pystr \<Rightarrow> exn" where
  "not_found n = Exn ''ResourceNotFoundError'' (py ''The Resource '' @ n @ py '' was not found.'')"

text \<open>A call is recorded, then fails if the service faults on it, else takes effect.\<close>

definition invoke ::
  "sdk_call \<Rightarrow> (world \<Rightarrow> (exn + 'a) \<times> world) \<Rightarrow> world \<Rightarrow> (exn + 'a) \<times> world" where
  "invoke c eff w =
     (let w1 = w\<lparr>calls := calls w @ [c]\<rparr>
      in case faults w1 c of Some e \<Rightarrow> (Inl e, w1) | None \<Rightarrow> eff w1)"

definition new_client :: "sdk_call \<Rightarrow> world \<Rightarrow> (exn + unit) \<times> world" where
  "new_client c = invoke c (\<lambda>w. (Inr (), w))"

definition get_properties :: "pystr \<Rightarrow> pystr \<Rightarrow> world \<Rightarrow> (exn + storage_account) \<times> world" where
  "get_properties rg n =
     invoke (StorageGetProperties rg n)
       (\<lambda>w. case storage_accounts w (rg, n) of
               None \<Rightarrow> (Inl (not_found n), w)
             | Some a \<Rightarrow> (Inr a, w))"

text \<open>\<open>begin_create\<close> followed by \<open>poller.result()\<close>; an account that exists keeps its keys.\<close>

definition storage_begin_create ::
  "pystr \<Rightarrow> pystr \<Rightarrow> storage_params \<Rightarrow> world \<Rightarrow> (exn + unit) \<times> world" where
  "storage_begin_create rg n p =
     invoke (StorageBeginCreate rg n p)
       (\<lambda>w. let ks = (case storage_accounts w (rg, n) of
                        None \<Rightarrow> new_storage_keys w (rg, n)
                      | Some a \<Rightarrow> sa_keys a)
             in (Inr (),
                 w\<lparr>storage_accounts :=
                     (storage_accounts w)((rg, n) \<mapsto> \<lparr>sa_params = p, sa_keys = ks\<rparr>)\<rparr>))"

definition storage_list_keys :: "pystr \<Rightarrow> pystr \<Rightarrow> world \<Rightarrow> (exn + pystr list) \<times> world" where
  "storage_list_keys rg n =
     invoke (StorageListKeys rg n)
       (\<lambda>w. case storage_accounts w (rg, n) of
               None \<Rightarrow> (Inl (not_found n), w)
             | Some a \<Rightarrow> (Inr (sa_keys a), w))"

definition accounts_get :: "pystr \<Rightarrow> pystr \<Rightarrow> world \<Rightarrow> (exn + cog_account) \<times> world" where
  "accounts_get rg n =
     invoke (AccountsGet rg n)
       (\<lambda>w. case cog_accounts w (rg, n) of
               None \<Rightarrow> (Inl (not_found n), w)
             | Some a \<Rightarrow> (Inr a, w))"

definition accounts_begin_create ::
  "pystr \<Rightarrow> pystr \<Rightarrow> cog_params \<Rightarrow> world \<Rightarrow> (exn + unit) \<times> world" where
  "accounts_begin_create rg n p =
     invoke (AccountsBeginCreate rg n p)
       (\<lambda>w. let k = (case cog_accounts w (rg, n) of
                       None \<Rightarrow> new_cog_key w (rg, n)
                     | Some a \<Rightarrow> ca_primary_key a)
             in (Inr (),
                 w\<lparr>cog_accounts :=
                     (cog_accounts w)((rg, n) \<mapsto> \<lparr>ca_params = p, ca_primary_key = k\<rparr>)\<rparr>))"

definition accounts_list_keys :: "pystr \<Rightarrow> pystr \<Rightarrow> world \<Rightarrow> (exn + pystr) \<times> world" where
  "accounts_list_keys rg n =
     invoke (AccountsListKeys rg n)
       (\<lambda>w. case cog_accounts w (rg, n) of
               None \<Rightarrow> (Inl (not_found n), w)
             | Some a \<Rightarrow> (Inr (ca_primary_key a), w))"

definition create_or_update_index ::
  "pystr \<Rightarrow> pystr \<Rightarrow> search_index \<Rightarrow> world \<Rightarrow> (exn + unit) \<times> world" where
  "create_or_update_index endpoint credential index =
     invoke (CreateOrUpdateIndex endpoint credential index)
       (\<lambda>w. (Inr (), w\<lparr>indexes := (indexes w)((endpoint, ix_name index) \<mapsto> index)\<rparr>))"

section \<open>The provisioner (\<open>create_db\<close>)\<close>

record storage_config =
  AZURE_STORAGE_URL :: pystr
  AZURE_STORAGE_NAME :: pystr
  AZURE_STORAGE_KEY :: pystr

record vector_db_config =
  vc_search_endpoint :: pystr
  vc_search_admin_key :: pystr
  vc_index_name :: pystr

definition storage_create_parameters :: "pystr \<Rightarrow> storage_params" where
  "storage_create_parameters location =
     \<lparr>sp_sku = py ''Standard_LRS'', sp_kind = py ''StorageV2'', sp_location = location,
      sp_enable_https_traffic_only = True\<rparr>"

text \<open>
  \<open>create_storage_account\<close>. The inner \<open>try\<close> turns any failure of the probe into a
  creation; the outer one logs and re-raises. Logging is left out of the model.
\<close>

definition create_storage_account ::
  "pystr \<Rightarrow> pystr \<Rightarrow> pystr \<Rightarrow> world \<Rightarrow> (exn + storage_config) \<times> world" where
  "create_storage_account resource_group_name storage_name location w =
     (let (probe, w1) = get_properties resource_group_name storage_name w;
          (created, w2) =
            (case probe of
               Inr a \<Rightarrow> (Inr (), w1)
             | Inl e \<Rightarrow>
                 storage_begin_create resource_group_name storage_name
                   (storage_create_parameters location) w1)
      in case created of
           Inl e \<Rightarrow> (Inl e, w2)
         | Inr u \<Rightarrow>
             (case storage_list_keys resource_group_name storage_name w2 of
                (Inl e, w3) \<Rightarrow> (Inl e, w3)
              | (Inr keys, w3) \<Rightarrow>
                  (case keys of
                     [] \<Rightarrow> (Inl (Exn ''IndexError'' (py ''list index out of range'')), w3)
                   | storage_key # rest \<Rightarrow>
                       (Inr \<lparr>AZURE_STORAGE_URL =
                               py ''https://'' @ storage_name @ py ''.blob.core.windows.net'',
                             AZURE_STORAGE_NAME = storage_name,
                             AZURE_STORAGE_KEY = storage_key\<rparr>, w3))))"

definition cog_create_parameters :: "pystr \<Rightarrow> cog_params" where
  "cog_create_parameters location =
     \<lparr>cp_location = location, cp_sku = py ''S1'', cp_kind = py ''Search''\<rparr>"

definition vector_search :: "algorithm_configuration list" where
  "vector_search =
     [\<lparr>ac_name = py ''my-vector-config'', ac_kind = py ''hnsw'',
       ac_parameters = [(py ''m'', 4), (py ''efConstruction'', 400), (py ''efSearch'', 200)]\<rparr>]"

definition field :: "field_helper \<Rightarrow> pystr \<Rightarrow> field_type \<Rightarrow> search_field" where
  "field h n t =
     \<lparr>sf_helper = h, sf_name = n, sf_ftype = t, sf_key = False, sf_searchable = False, sf_filterable = False,
      sf_facetable = False, sf_analyzer_name = None, sf_vector_search_dimensions = None,
      sf_vector_search_configuration = None\<rparr>"

definition index_fields :: "search_field list" where
  "index_fields =
     [(field SimpleField (py ''id'') String)\<lparr>sf_key := True\<rparr>,
      (field SearchableField (py ''content'') String)
         \<lparr>sf_searchable := True, sf_analyzer_name := Some (py ''en.lucene'')\<rparr>,
      (field SimpleField (py ''metadata_author'') String)
         \<lparr>sf_filterable := True, sf_facetable := True\<rparr>,
      (field SimpleField (py ''metadata_category'') String)
         \<lparr>sf_filterable := True, sf_facetable := True\<rparr>,
      (field SimpleField (py ''contentVector'') (Collection Single))
         \<lparr>sf_searchable := True, sf_vector_search_dimensions := Some 1536,
          sf_vector_search_configuration := Some (py ''my-vector-config'')\<rparr>]"

definition search_index_of :: "pystr \<Rightarrow> search_index" where
  "search_index_of n = \<lparr>ix_name = n, ix_fields = index_fields, ix_vector_search = vector_search\<rparr>"

text \<open>\<open>create_vector_database_and_index\<close>; \<open>admin_key\<close> is the optional last argument.\<close>

definition create_vector_database_and_index ::
  "pystr \<Rightarrow> pystr \<Rightarrow> pystr \<Rightarrow> pystr \<Rightarrow> pystr option \<Rightarrow> world
     \<Rightarrow> (exn + vector_db_config) \<times> world" where
  "create_vector_database_and_index resource_group_name search_account_name location
       index_name admin_key w =
     (let (probe, w1) = accounts_get resource_group_name search_account_name w;
          (created, w2) =
            (case probe of
               Inr a \<Rightarrow> (Inr (), w1)
             | Inl e \<Rightarrow>
                 accounts_begin_create resource_group_name search_account_name
                   (cog_create_parameters location) w1);
          (listed, w3) =
            (case created of
               Inl e \<Rightarrow> (Inl e, w2)
             | Inr u \<Rightarrow>
                 (if admin_key = None \<or> admin_key = Some []
                  then accounts_list_keys resource_group_name search_account_name w2
                  else (Inr (the admin_key), w2)))
      in case listed of
           Inl e \<Rightarrow> (Inl e, w3)
         | Inr admin_key \<Rightarrow>
             (let endpoint = py ''https://'' @ search_account_name @ py ''.search.windows.net''
              in case new_client (SearchIndexClient endpoint admin_key) w3 of
                   (Inl e, w4) \<Rightarrow> (Inl e, w4)
                 | (Inr u, w4) \<Rightarrow>
                     (case create_or_update_index endpoint admin_key
                             (search_index_of index_name) w4 of
                        (Inl e, w5) \<Rightarrow> (Inl e, w5)
                      | (Inr u, w5) \<Rightarrow>
                          (Inr \<lparr>vc_search_endpoint = endpoint, vc_search_admin_key = admin_key,
                                vc_index_name = index_name\<rparr>, w5))))"

definition storage_config_json :: "storage_config \<Rightarrow> json" where
  "storage_config_json c =
     JObj [(py ''AZURE_STORAGE_URL'', JStr (AZURE_STORAGE_URL c)),
           (py ''AZURE_STORAGE_NAME'', JStr (AZURE_STORAGE_NAME c)),
           (py ''AZURE_STORAGE_KEY'', JStr (AZURE_STORAGE_KEY c))]"

definition vector_db_config_json :: "vector_db_config \<Rightarrow> json" where
  "vector_db_config_json c =
     JObj [(py ''search_endpoint'', JStr (vc_search_endpoint c)),
           (py ''search_admin_key'', JStr (vc_search_admin_key c)),
           (py ''index_name'', JStr (vc_index_name c))]"

text \<open>
  The \<open>try\<close> block of \<open>main\<close>. \<open>t_storage\<close> and \<open>t_search\<close> are the two readings of
  \<open>int(time.time())\<close>, taken when each name is built.
\<close>

definition provision ::
  "pystr \<Rightarrow> pystr \<Rightarrow> pystr \<Rightarrow> pystr \<Rightarrow> pystr \<Rightarrow> pystr \<Rightarrow> int \<Rightarrow> int \<Rightarrow> world
     \<Rightarrow> (exn + http_response) \<times> world" where
  "provision subscription_id resource_group location storage_account_base search_account_base
       index_name t_storage t_search w =
     (case new_client DefaultAzureCredential w of
        (Inl e, w1) \<Rightarrow> (Inl e, w1)
      | (Inr u, w1) \<Rightarrow>
     (case new_client (StorageManagementClient subscription_id) w1 of
        (Inl e, w2) \<Rightarrow> (Inl e, w2)
      | (Inr u, w2) \<Rightarrow>
     (case new_client (CognitiveServicesManagementClient subscription_id) w2 of
        (Inl e, w3) \<Rightarrow> (Inl e, w3)
      | (Inr u, w3) \<Rightarrow>
     (let storage_account_name = storage_account_base @ str_of_int (t_storage mod 10000)
      in case create_storage_account resource_group storage_account_name location w3 of
        (Inl e, w4) \<Rightarrow> (Inl e, w4)
      | (Inr storage_config, w4) \<Rightarrow>
     (let w5 = w4\<lparr>AZURE_STORAGE_ACCOUNT_KEY := Some (AZURE_STORAGE_KEY storage_config)\<rparr>;
          search_account_name = search_account_base @ str_of_int (t_search mod 10000)
      in case create_vector_database_and_index resource_group search_account_name location
                index_name None w5 of
        (Inl e, w6) \<Rightarrow> (Inl e, w6)
      | (Inr vector_db_config, w6) \<Rightarrow>
          (Inr (json_response
                  (JObj [(py ''storage'', storage_config_json storage_config),
                         (py ''vector_search'', vector_db_config_json vector_db_config)])
                  200), w6))))))"

text \<open>
  \<open>main\<close> of \<open>create_db\<close>. The result is the response, or \<open>Inl\<close> the exception that
  leaves the handler uncaught.
\<close>

definition create_db_main ::
  "unicode \<Rightarrow> env \<Rightarrow> int \<Rightarrow> int \<Rightarrow> http_request \<Rightarrow> world \<Rightarrow> (exn + http_response) \<times> world" where
  "create_db_main u env t_storage t_search req w =
     (case req_json req of
        None \<Rightarrow> (Inr (text_response (py ''Invalid JSON body'') 400), w)
      | Some req_body \<Rightarrow>
     (case py_get req_body (py ''title'') of
        Inl e \<Rightarrow> (Inl e, w)
      | Inr title \<Rightarrow>
     (if \<not> truthy title \<or> \<not> is_str title
          \<or> \<not> truthy (JStr (strip u (case title of JStr s \<Rightarrow> s | _ \<Rightarrow> [])))
      then (Inr (text_response (py ''Missing or invalid '' @ [39] @ py ''title'' @ [39]
                    @ py '' in request body'') 400), w)
      else
     (let sanitized_title = sanitize u (case title of JStr s \<Rightarrow> s | _ \<Rightarrow> []);
          subscription_id = env (py ''AZURE_SUBSCRIPTION_ID'');
          resource_group = env (py ''AZURE_RESOURCE_GROUP'');
          location = environ_get env (py ''AZURE_LOCATION'') (py ''eastus'');
          storage_account_base = environ_get env (py ''STORAGE_ACCOUNT_BASE'') (py ''mystorageacct'');
          search_account_base = environ_get env (py ''SEARCH_ACCOUNT_BASE'') (py ''mysearchacct'');
          index_name = environ_get env (py ''SEARCH_INDEX_NAME'') (py ''rag-vector-index'')
      in if subscription_id = None \<or> subscription_id = Some []
            \<or> resource_group = None \<or> resource_group = Some []
         then (Inr (text_response
                 (py ''Missing required environment variables: AZURE_SUBSCRIPTION_ID or AZURE_RESOURCE_GROUP'')
                 500), w)
         else
           (case provision (the subscription_id) (the resource_group) location
                   storage_account_base search_account_base index_name t_storage t_search w of
              (Inl e, w') \<Rightarrow> (Inr (text_response (py ''Error: '' @ str_exn e) 500), w')
            | (Inr r, w') \<Rightarrow> (Inr r, w'))))))"

section \<open>The lister (\<open>list_db\<close>)\<close>

text \<open>
  The rows the queries return, with the column types the handler relies on: a date column
  is a \<open>datetime\<close> or NULL, \<open>rating\<close> a \<open>Decimal\<close> or NULL, and every other column a
  scalar that \<open>json.dumps\<close> accepts (NULL, a number or a string). A \<open>datetime\<close> is
  represented by the text its \<open>isoformat()\<close> gives.
\<close>

datatype datetime = DateTime pystr

fun isoformat :: "datetime \<Rightarrow> pystr" where
  "isoformat (DateTime s) = s"

datatype decimal = Decimal int nat

fun float :: "decimal \<Rightarrow> pyfloat" where
  "float (Decimal n s) = FloatOfDecimal n s"

record database_row =
  db_id :: json
  db_name :: json
  db_description :: json
  db_type :: json
  db_isPublic :: json
  db_lastUpdated :: "datetime option"
  db_documentCount :: json
  db_usageCount :: json
  db_rating :: "decimal option"
  db_owner_id :: json
  db_vector_search_enabled :: json
  db_vector_search_endpoint :: json
  db_vector_search_key :: json
  db_vector_search_index :: json
  db_vector_search_semantic_config :: json
  db_vector_search_embedding_deployment :: json
  db_vector_search_embedding_endpoint :: json
  db_vector_search_embedding_key :: json
  db_vector_search_storage_endpoint :: json
  db_vector_search_storage_access_key :: json
  db_vector_search_storage_connection_string :: json

record user_row =
  u_id :: json
  u_name :: json

record contributor_row =
  c_database_id :: json
  c_user_id :: json
  c_name :: json

record file_row =
  f_database_id :: json
  f_name :: json
  f_size :: json
  f_type :: json
  f_uploadedAt :: "datetime option"

text \<open>
  The relational store is outside the repository: what the handler sees of it is whether
  the connection opens and, for each of the five queries in the order the handler runs
  them, the rows fetched or the exception raised.
\<close>

record mysql =
  connect_error :: "exn option"
  databases_query :: "exn + database_row list"
  users_query :: "exn + user_row list"
  contributors_query :: "exn + contributor_row list"
  files_query :: "exn + file_row list"
  tags_query :: "exn + (json \<times> json) list"

text \<open>\<open>{u['id']: u['name'] for u in rows}\<close>: a later row replaces an earlier one.\<close>

definition users_dict :: "user_row list \<Rightarrow> (json \<rightharpoonup> json)" where
  "users_dict rows = fold (\<lambda>u m. m(u_id u \<mapsto> u_name u)) rows Map.empty"

text \<open>\<open>m.setdefault(k, []).append(v)\<close>\<close>

definition setdefault_append :: "'k \<Rightarrow> 'v \<Rightarrow> ('k \<rightharpoonup> 'v list) \<Rightarrow> ('k \<rightharpoonup> 'v list)" where
  "setdefault_append k v m = m(k \<mapsto> (case m k of None \<Rightarrow> [] | Some vs \<Rightarrow> vs) @ [v])"

definition contributors_map_of :: "contributor_row list \<Rightarrow> (json \<rightharpoonup> json list)" where
  "contributors_map_of rows =
     fold (\<lambda>c. setdefault_append (c_database_id c)
                 (JObj [(py ''id'', c_user_id c), (py ''name'', c_name c)]))
       rows Map.empty"

definition iso_or_none :: "datetime option \<Rightarrow> json" where
  "iso_or_none d = (case d of None \<Rightarrow> JNull | Some t \<Rightarrow> JStr (isoformat t))"

definition files_map_of :: "file_row list \<Rightarrow> (json \<rightharpoonup> json list)" where
  "files_map_of rows =
     fold (\<lambda>f. setdefault_append (f_database_id f)
                 (JObj [(py ''name'', f_name f), (py ''size'', f_size f),
                        (py ''type'', f_type f),
                        (py ''uploadedAt'', iso_or_none (f_uploadedAt f))]))
       rows Map.empty"

definition tags_map_of :: "(json \<times> json) list \<Rightarrow> (json \<rightharpoonup> json list)" where
  "tags_map_of rows = fold (\<lambda>(db_id, tag). setdefault_append db_id tag) rows Map.empty"

text \<open>\<open>m.get(k, [])\<close> and \<open>m.get(k, d)\<close>\<close>

definition get_list :: "('k \<rightharpoonup> json list) \<Rightarrow> 'k \<Rightarrow> json" where
  "get_list m k = JArr (case m k of None \<Rightarrow> [] | Some vs \<Rightarrow> vs)"

definition get_or :: "('k \<rightharpoonup> json) \<Rightarrow> 'k \<Rightarrow> json \<Rightarrow> json" where
  "get_or m k d = (case m k of None \<Rightarrow> d | Some v \<Rightarrow> v)"

text \<open>The dict appended to \<open>databases\<close> for one row of \<open>databases_raw\<close>.\<close>

definition catalog_entry ::
  "(json \<rightharpoonup> json) \<Rightarrow> (json \<rightharpoonup> json list) \<Rightarrow> (json \<rightharpoonup> json list) \<Rightarrow> (json \<rightharpoonup> json list)
     \<Rightarrow> database_row \<Rightarrow> json" where
  "catalog_entry users contributors_map tags_map files_map db =
     (let db_id = db_id db; owner_id = db_owner_id db
      in JObj
        [(py ''id'', db_id),
         (py ''name'', db_name db),
         (py ''description'', db_description db),
         (py ''type'', db_type db),
         (py ''owner'',
            JObj [(py ''id'', owner_id),
                  (py ''name'', get_or users owner_id (JStr (py ''Unknown'')))]),
         (py ''contributors'', get_list contributors_map db_id),
         (py ''isPublic'', JBool (truthy (db_isPublic db))),
         (py ''tags'', get_list tags_map db_id),
         (py ''lastUpdated'', iso_or_none (db_lastUpdated db)),
         (py ''documentCount'', db_documentCount db),
         (py ''usageCount'', db_usageCount db),
         (py ''rating'', (case db_rating db of None \<Rightarrow> JNull | Some r \<Rightarrow> JFloat (float r))),
         (py ''isSelected'', JBool False),
         (py ''files'', get_list files_map db_id),
         (py ''VECTOR_SEARCH_ENABLED'', JBool (truthy (db_vector_search_enabled db))),
         (py ''VECTOR_SEARCH_ENDPOINT'', db_vector_search_endpoint db),
         (py ''VECTOR_SEARCH_KEY'', db_vector_search_key db),
         (py ''VECTOR_SEARCH_INDEX'', db_vector_search_index db),
         (py ''VECTOR_SEARCH_SEMANTIC_CONFIG'', db_vector_search_semantic_config db),
         (py ''VECTOR_SEARCH_EMBEDDING_DEPLOYMENT'', db_vector_search_embedding_deployment db),
         (py ''VECTOR_SEARCH_EMBEDDING_ENDPOINT'', db_vector_search_embedding_endpoint db),
         (py ''VECTOR_SEARCH_EMBEDDING_KEY'', db_vector_search_embedding_key db),
         (py ''VECTOR_SEARCH_STORAGE_ENDPOINT'', db_vector_search_storage_endpoint db),
         (py ''VECTOR_SEARCH_STORAGE_ACCESS_KEY'', db_vector_search_storage_access_key db),
         (py ''VECTOR_SEARCH_STORAGE_CONNECTION_STRING'',
            db_vector_search_storage_connection_string db)])"

text \<open>
  The \<open>try\<close> block of \<open>main\<close> of \<open>list_db\<close>: the first failure ends it. Opening cursors
  and closing them and the connection do not fail in the model.
\<close>

definition list_db_try :: "mysql \<Rightarrow> exn + http_response" where
  "list_db_try db =
     (case connect_error db of
        Some e \<Rightarrow> Inl e
      | None \<Rightarrow>
     (case databases_query db of
        Inl e \<Rightarrow> Inl e
      | Inr databases_raw \<Rightarrow>
     (case users_query db of
        Inl e \<Rightarrow> Inl e
      | Inr user_rows \<Rightarrow>
     (case contributors_query db of
        Inl e \<Rightarrow> Inl e
      | Inr contributors_raw \<Rightarrow>
     (case files_query db of
        Inl e \<Rightarrow> Inl e
      | Inr files_raw \<Rightarrow>
     (case tags_query db of
        Inl e \<Rightarrow> Inl e
      | Inr tags_raw \<Rightarrow>
          Inr (json_response
                 (JObj [(py ''databases'',
                    JArr (map (catalog_entry (users_dict user_rows)
                                 (contributors_map_of contributors_raw)
                                 (tags_map_of tags_raw)
                                 (files_map_of files_raw))
                            databases_raw))])
                 200)))))))"

text \<open>\<open>main\<close> of \<open>list_db\<close>: \<open>except Exception\<close> answers every failure.\<close>

definition list_db_main :: "mysql \<Rightarrow> http_response" where
  "list_db_main db =
     (case list_db_try db of
        Inl e \<Rightarrow> text_response (py ''Error: '' @ str_exn e) 500
      | Inr r \<Rightarrow> r)"

section \<open>The index the service creates\<close>










section \<open>Reading the results\<close>

text \<open>The value a JSON object holds under a key, if it holds one.\<close>

fun member :: "json \<Rightarrow> pystr \<Rightarrow> json option" where
  "member (JObj kvs) k = map_of kvs k"
| "member v k = None"

text \<open>The keys of a JSON object, in order.\<close>

fun keys_of :: "json \<Rightarrow> pystr list" where
  "keys_of (JObj kvs) = map fst kvs"
| "keys_of v = []"

text \<open>
  The exceptions the relational store raises during one run of the lister, in the order of
  the handler's calls: the connection first, then the five queries.
\<close>

definition failures :: "mysql \<Rightarrow> exn list" where
  "failures db =
     (case connect_error db of Some e \<Rightarrow> [e] | None \<Rightarrow> [])
     @ (case databases_query db of Inl e \<Rightarrow> [e] | Inr rows \<Rightarrow> [])
     @ (case users_query db of Inl e \<Rightarrow> [e] | Inr rows \<Rightarrow> [])
     @ (case contributors_query db of Inl e \<Rightarrow> [e] | Inr rows \<Rightarrow> [])
     @ (case files_query db of Inl e \<Rightarrow> [e] | Inr rows \<Rightarrow> [])
     @ (case tags_query db of Inl e \<Rightarrow> [e] | Inr rows \<Rightarrow> [])"

section \<open>Concrete inputs\<close>

text \<open>
  Inputs on which the theorems below are run: a Unicode database that maps every code
  point from 128 on to itself and has no white space there, an environment that sets only
  the two mandatory variables, and a subscription with no resources whose services answer
  every call.
\<close>

definition plain_unicode :: unicode where
  "plain_unicode = \<lparr>ulower = (\<lambda>c. [c]), uspace = (\<lambda>c. False)\<rparr>"

definition example_env :: env where
  "example_env =
     map_of [(py ''AZURE_SUBSCRIPTION_ID'', py ''sub-1''),
             (py ''AZURE_RESOURCE_GROUP'', py ''rg-1'')]"

definition fresh_world :: world where
  "fresh_world =
     \<lparr>storage_accounts = Map.empty, cog_accounts = Map.empty, indexes = Map.empty,
      new_storage_keys = (\<lambda>n. [py ''key1'', py ''key2'']),
      new_cog_key = (\<lambda>n. py ''adminkey''),
      faults = (\<lambda>c. None), calls = [], AZURE_STORAGE_ACCOUNT_KEY = None\<rparr>"


text \<open>
  A store with one database row, whose owner is not among the users and which has no
  contributor, file or tag; a store whose connection fails; and a store whose first query
  is refused.
\<close>

definition orphan_row :: database_row where
  "orphan_row =
     \<lparr>db_id = JInt 7, db_name = JStr (py ''papers''), db_description = JNull,
      db_type = JStr (py ''vector''), db_isPublic = JInt 1, db_lastUpdated = None,
      db_documentCount = JInt 0, db_usageCount = JInt 0, db_rating = None,
      db_owner_id = JInt 42, db_vector_search_enabled = JInt 0,
      db_vector_search_endpoint = JNull, db_vector_search_key = JNull,
      db_vector_search_index = JNull, db_vector_search_semantic_config = JNull,
      db_vector_search_embedding_deployment = JNull,
      db_vector_search_embedding_endpoint = JNull, db_vector_search_embedding_key = JNull,
      db_vector_search_storage_endpoint = JNull,
      db_vector_search_storage_access_key = JNull,
      db_vector_search_storage_connection_string = JNull\<rparr>"

definition example_db :: mysql where
  "example_db =
     \<lparr>connect_error = None,
      databases_query = Inr [orphan_row],
      users_query = Inr [\<lparr>u_id = JInt 1, u_name = JStr (py ''ada'')\<rparr>],
      contributors_query =
        Inr [\<lparr>c_database_id = JInt 8, c_user_id = JInt 1, c_name = JStr (py ''ada'')\<rparr>],
      files_query = Inr [],
      tags_query = Inr [(JInt 8, JStr (py ''nlp''))]\<rparr>"

definition unreachable_db :: mysql where
  "unreachable_db =
     example_db
       \<lparr>connect_error :=
          Some (Exn ''InterfaceError''
            (py ''2003: Can not connect to MySQL server on db.internal:3306 (timed out)''))\<rparr>"

definition refused_db :: mysql where
  "refused_db =
     example_db
       \<lparr>databases_query :=
          Inl (Exn ''ProgrammingError''
            (py ''1142 (42000): SELECT command denied to user lister for table databases''))\<rparr>"

text \<open>The subscription when the credential cannot be obtained: every SDK call fails.\<close>

definition unauthenticated_world :: world where
  "unauthenticated_world =
     fresh_world
       \<lparr>faults :=
          (\<lambda>c. Some (Exn ''ClientAuthenticationError''
                  (py ''DefaultAzureCredential failed to retrieve a token from the included credentials'')))\<rparr>"



section \<open>The name stem\<close>

lemma sanitize_example: "sanitize u (py ''My Docs! 2024'') = py ''mydocs2024''"
  by (simp add: sanitize_def py_def lower_def lower_char_def ascii_lower_def is_az09_def)

text \<open>
  C2. For every title, and whatever the Unicode database says about the code points beyond
  ASCII, the stem holds only the code points of \<open>a\<close> to \<open>z\<close> (97 to 122) and of \<open>0\<close> to
  \<open>9\<close> (48 to 57) and is at most 20 long; the title \<open>My Docs! 2024\<close> gives \<open>mydocs2024\<close>.
\<close>

theorem sanitize_stem:
  "set (sanitize u title) \<subseteq> {97..122} \<union> {48..57}
   \<and> length (sanitize u title) \<le> 20
   \<and> sanitize u (py ''My Docs! 2024'') = py ''mydocs2024''"
proof -
  have "set (filter is_az09 (lower u title)) \<subseteq> {97..122} \<union> {48..57}"
    by (auto simp: is_az09_def)
  moreover have "set (sanitize u title) \<subseteq> set (filter is_az09 (lower u title))"
    unfolding sanitize_def by (rule set_take_subset)
  ultimately have "set (sanitize u title) \<subseteq> {97..122} \<union> {48..57}"
    by (rule order_trans[rotated])
  moreover have "length (sanitize u title) \<le> 20"
    by (simp add: sanitize_def)
  ultimately show ?thesis
    using sanitize_example by simp
qed

theorem sanitize_stem_witness:
  "set (sanitize plain_unicode (py ''Research Papers'')) \<subseteq> {97..122} \<union> {48..57}
   \<and> length (sanitize plain_unicode (py ''Research Papers'')) \<le> 20
   \<and> sanitize plain_unicode (py ''Research Papers'') = py ''researchpapers''"
proof -
  have "sanitize plain_unicode (py ''Research Papers'') = py ''researchpapers''"
    by (simp add: sanitize_def py_def lower_def lower_char_def ascii_lower_def is_az09_def)
  then show ?thesis
    using sanitize_stem [of plain_unicode "py ''Research Papers''"] by simp
qed

section \<open>Request validation\<close>

text \<open>
  C4. The claim asks for HTTP 400 on every valid JSON body without a usable title. A body
  that is valid JSON but not an object, such as the array \<open>[]\<close>, has no title, and the
  handler answers it with no response at all: \<open>req_body.get\<close> raises \<open>AttributeError\<close>
  outside every \<open>try\<close>, and the exception leaves \<open>main\<close>. No external call is made.
\<close>

theorem non_object_body_raises:
  "create_db_main u env t_storage t_search \<lparr>req_json = Some (JArr xs)\<rparr> w =
     (Inl (Exn ''AttributeError''
        ([39] @ py ''list'' @ py '' object has no attribute '' @ [39] @ py ''get'' @ [39])), w)"
  by (simp add: create_db_main_def)

theorem non_object_body_raises_witness:
  "fst (create_db_main plain_unicode example_env 0 0 \<lparr>req_json = Some (JArr [])\<rparr> fresh_world) =
     Inl (Exn ''AttributeError''
        ([39] @ py ''list'' @ py '' object has no attribute '' @ [39] @ py ''get'' @ [39]))"
  using non_object_body_raises [of plain_unicode example_env 0 0 "[]" fresh_world] by simp

text \<open>
  On a body that is a JSON object the handler does what C4 says: a title that is missing,
  not a string, or blank after trimming gives 400, and the world is left as it was.
\<close>

lemma invalid_title_400:
  assumes "req_json req = Some (JObj kvs)"
    and "map_of kvs (py ''title'') = None
         \<or> (\<exists>v. map_of kvs (py ''title'') = Some v \<and> \<not> is_str v)
         \<or> (\<exists>s. map_of kvs (py ''title'') = Some (JStr s) \<and> strip u s = [])"
  shows "create_db_main u env t_storage t_search req w =
     (Inr (text_response
        (py ''Missing or invalid '' @ [39] @ py ''title'' @ [39] @ py '' in request body'') 400), w)"
  using assms by (auto simp: create_db_main_def split: json.splits)

lemma strip_nonempty: "strip u s \<noteq> [] \<Longrightarrow> s \<noteq> []"
  by (auto simp: strip_def)

text \<open>
  C5. For a request whose title is a string that is not blank after trimming, if the
  subscription id or the resource group is absent from the environment, the handler returns
  500 with the fixed message and the world is unchanged: in particular no call was added
  to \<open>calls\<close>, so no client was constructed and no operation issued.
\<close>

theorem missing_configuration_500:
  assumes "req_json req = Some (JObj kvs)"
    and "map_of kvs (py ''title'') = Some (JStr title)"
    and "strip u title \<noteq> []"
    and "env (py ''AZURE_SUBSCRIPTION_ID'') = None \<or> env (py ''AZURE_RESOURCE_GROUP'') = None"
  shows "create_db_main u env t_storage t_search req w =
     (Inr (text_response
        (py ''Missing required environment variables: AZURE_SUBSCRIPTION_ID or AZURE_RESOURCE_GROUP'')
        500), w)"
proof -
  from assms(3) have "title \<noteq> []" by (rule strip_nonempty)
  with assms show ?thesis
    by (auto simp: create_db_main_def Let_def)
qed

theorem missing_configuration_500_witness:
  "create_db_main plain_unicode (map_of [(py ''AZURE_SUBSCRIPTION_ID'', py ''sub-1'')]) 0 0
     \<lparr>req_json = Some (JObj [(py ''title'', JStr (py ''Research Papers''))])\<rparr> fresh_world =
     (Inr (text_response
        (py ''Missing required environment variables: AZURE_SUBSCRIPTION_ID or AZURE_RESOURCE_GROUP'')
        500), fresh_world)"
proof -
  have "strip plain_unicode (py ''Research Papers'') \<noteq> []"
    by (simp add: strip_def is_space_def py_def)
  moreover have "map_of [(py ''AZURE_SUBSCRIPTION_ID'', py ''sub-1'')] (py ''AZURE_RESOURCE_GROUP'') = None"
    by (simp add: py_def)
  ultimately show ?thesis
    using missing_configuration_500 [of
        "\<lparr>req_json = Some (JObj [(py ''title'', JStr (py ''Research Papers''))])\<rparr>"
        "[(py ''title'', JStr (py ''Research Papers''))]" "py ''Research Papers''" plain_unicode
        "map_of [(py ''AZURE_SUBSCRIPTION_ID'', py ''sub-1'')]" 0 0 fresh_world]
    by simp
qed

section \<open>Resource names\<close>

lemma suffix_1234: "str_of_int 1234 = py ''1234''"
  by (simp add: str_of_int_def str_of_nat.simps py_def)

lemma suffix_1237: "str_of_int 1237 = py ''1237''"
  by (simp add: str_of_int_def str_of_nat.simps py_def)

lemma example_env_values:
  "example_env (py ''AZURE_SUBSCRIPTION_ID'') = Some (py ''sub-1'')"
  "example_env (py ''AZURE_RESOURCE_GROUP'') = Some (py ''rg-1'')"
  "example_env (py ''AZURE_LOCATION'') = None"
  "example_env (py ''STORAGE_ACCOUNT_BASE'') = None"
  "example_env (py ''SEARCH_ACCOUNT_BASE'') = None"
  "example_env (py ''SEARCH_INDEX_NAME'') = None"
  by (simp_all add: example_env_def py_def)

lemma provision_example:
  "fst (provision (py ''sub-1'') (py ''rg-1'') (py ''eastus'') (py ''mystorageacct'')
          (py ''mysearchacct'') (py ''rag-vector-index'') 1700001234 1700001237 fresh_world) =
   Inr (json_response
     (JObj [(py ''storage'',
              JObj [(py ''AZURE_STORAGE_URL'',
                       JStr (py ''https://mystorageacct1234.blob.core.windows.net'')),
                    (py ''AZURE_STORAGE_NAME'', JStr (py ''mystorageacct1234'')),
                    (py ''AZURE_STORAGE_KEY'', JStr (py ''key1''))]),
            (py ''vector_search'',
              JObj [(py ''search_endpoint'',
                       JStr (py ''https://mysearchacct1237.search.windows.net'')),
                    (py ''search_admin_key'', JStr (py ''adminkey'')),
                    (py ''index_name'', JStr (py ''rag-vector-index''))])])
     200)"
  by (simp add: provision_def suffix_1234 suffix_1237 create_storage_account_def
      create_vector_database_and_index_def invoke_def new_client_def get_properties_def
      storage_begin_create_def storage_list_keys_def accounts_get_def accounts_begin_create_def
      accounts_list_keys_def create_or_update_index_def Let_def fresh_world_def
      storage_config_json_def vector_db_config_json_def py_def)

text \<open>
  C1. The claim derives the two resource names from the title. The handler computes the
  stem \<open>sanitized_title\<close> and never uses it: the names are the configured prefixes
  (\<open>mystorageacct\<close> and \<open>mysearchacct\<close> when the environment sets none) followed by the
  clock reading modulo 10000, read once for each name. With the clock at 1700001234 and
  then 1700001237, every valid title gives the same names, \<open>mystorageacct1234\<close> and
  \<open>mysearchacct1237\<close>.
\<close>

theorem resource_names_ignore_title:
  assumes "strip u title \<noteq> []"
  shows "fst (create_db_main u example_env 1700001234 1700001237
            \<lparr>req_json = Some (JObj [(py ''title'', JStr title)])\<rparr> fresh_world) =
         Inr (json_response
           (JObj [(py ''storage'',
                    JObj [(py ''AZURE_STORAGE_URL'',
                             JStr (py ''https://mystorageacct1234.blob.core.windows.net'')),
                          (py ''AZURE_STORAGE_NAME'', JStr (py ''mystorageacct1234'')),
                          (py ''AZURE_STORAGE_KEY'', JStr (py ''key1''))]),
                  (py ''vector_search'',
                    JObj [(py ''search_endpoint'',
                             JStr (py ''https://mysearchacct1237.search.windows.net'')),
                          (py ''search_admin_key'', JStr (py ''adminkey'')),
                          (py ''index_name'', JStr (py ''rag-vector-index''))])])
           200)"
proof -
  from assms have t: "title \<noteq> []" by (rule strip_nonempty)
  have ne: "py ''sub-1'' \<noteq> []" "py ''rg-1'' \<noteq> []"
    by (simp_all add: py_def)
  obtain r w' where pw:
    "provision (py ''sub-1'') (py ''rg-1'') (py ''eastus'') (py ''mystorageacct'')
       (py ''mysearchacct'') (py ''rag-vector-index'') 1700001234 1700001237 fresh_world = (r, w')"
    by (cases "provision (py ''sub-1'') (py ''rg-1'') (py ''eastus'') (py ''mystorageacct'')
       (py ''mysearchacct'') (py ''rag-vector-index'') 1700001234 1700001237 fresh_world")
  show ?thesis
    using assms t ne provision_example
    by (simp add: create_db_main_def example_env_values environ_get_def Let_def pw)
qed

theorem resource_names_ignore_title_witness:
  "sanitize plain_unicode (py ''My Docs! 2024'') = py ''mydocs2024''
   \<and> fst (create_db_main plain_unicode example_env 1700001234 1700001237
            \<lparr>req_json = Some (JObj [(py ''title'', JStr (py ''My Docs! 2024''))])\<rparr> fresh_world) =
         Inr (json_response
           (JObj [(py ''storage'',
                    JObj [(py ''AZURE_STORAGE_URL'',
                             JStr (py ''https://mystorageacct1234.blob.core.windows.net'')),
                          (py ''AZURE_STORAGE_NAME'', JStr (py ''mystorageacct1234'')),
                          (py ''AZURE_STORAGE_KEY'', JStr (py ''key1''))]),
                  (py ''vector_search'',
                    JObj [(py ''search_endpoint'',
                             JStr (py ''https://mysearchacct1237.search.windows.net'')),
                          (py ''search_admin_key'', JStr (py ''adminkey'')),
                          (py ''index_name'', JStr (py ''rag-vector-index''))])])
           200)"
proof -
  have "strip plain_unicode (py ''My Docs! 2024'') \<noteq> []"
    by (simp add: strip_def is_space_def py_def)
  then show ?thesis
    using resource_names_ignore_title [of plain_unicode "py ''My Docs! 2024''"] sanitize_example
    by simp
qed

section \<open>The search index\<close>











section \<open>Provisioning a name that exists\<close>



text \<open>
  A first call that succeeds leaves the account in place, with the key it returned first
  among its keys: the state the next theorem starts from.
\<close>

lemma create_storage_account_leaves_account:
  assumes "create_storage_account rg n loc w = (Inr cfg, w')"
  shows "\<exists>a ks. storage_accounts w' (rg, n) = Some a \<and> sa_keys a = AZURE_STORAGE_KEY cfg # ks"
  using assms
  unfolding create_storage_account_def storage_list_keys_def get_properties_def
    storage_begin_create_def invoke_def Let_def
  by (auto split: prod.splits sum.splits option.splits list.splits if_splits)

lemma create_vector_leaves_account:
  assumes "create_vector_database_and_index rg n loc ixn None w = (Inr cfg, w')"
  shows "\<exists>a. cog_accounts w' (rg, n) = Some a \<and> ca_primary_key a = vc_search_admin_key cfg"
  using assms
  unfolding create_vector_database_and_index_def accounts_get_def accounts_begin_create_def
    accounts_list_keys_def new_client_def create_or_update_index_def invoke_def Let_def
  by (auto split: prod.splits sum.splits option.splits if_splits)



section \<open>The lister's lookups\<close>

lemma fold_setdefault_append_other:
  assumes "\<forall>r\<in>set rows. kf r \<noteq> k"
  shows "fold (\<lambda>r. setdefault_append (kf r) (vf r)) rows m k = m k"
  using assms
  by (induction rows arbitrary: m) (auto simp: setdefault_append_def)

lemma contributors_map_absent:
  "\<forall>c\<in>set rows. c_database_id c \<noteq> k \<Longrightarrow> contributors_map_of rows k = None"
  unfolding contributors_map_of_def
  by (simp add: fold_setdefault_append_other)

lemma files_map_absent:
  "\<forall>f\<in>set rows. f_database_id f \<noteq> k \<Longrightarrow> files_map_of rows k = None"
  unfolding files_map_of_def
  by (simp add: fold_setdefault_append_other)

lemma tags_map_absent:
  assumes "\<forall>t\<in>set rows. fst t \<noteq> k"
  shows "tags_map_of rows k = None"
proof -
  have "(\<lambda>(db_id, tag). setdefault_append db_id tag) =
      (\<lambda>r :: json \<times> json. setdefault_append (fst r) (snd r))"
    by (auto simp: fun_eq_iff)
  then have "tags_map_of rows = fold (\<lambda>r. setdefault_append (fst r) (snd r)) rows Map.empty"
    by (simp add: tags_map_of_def)
  with assms show ?thesis
    by (simp add: fold_setdefault_append_other)
qed

lemma users_dict_absent:
  assumes "\<forall>u\<in>set rows. u_id u \<noteq> k"
  shows "users_dict rows k = None"
proof -
  have "fold (\<lambda>u m. m(u_id u \<mapsto> u_name u)) rows m k = m k" for m
    using assms by (induction rows arbitrary: m) auto
  then show ?thesis
    by (simp add: users_dict_def)
qed

lemma entry_contributors:
  "member (catalog_entry users cm tm fm row) (py ''contributors'') = Some (get_list cm (db_id row))"
  by (simp add: catalog_entry_def Let_def py_def)

lemma entry_tags:
  "member (catalog_entry users cm tm fm row) (py ''tags'') = Some (get_list tm (db_id row))"
  by (simp add: catalog_entry_def Let_def py_def)

lemma entry_files:
  "member (catalog_entry users cm tm fm row) (py ''files'') = Some (get_list fm (db_id row))"
  by (simp add: catalog_entry_def Let_def py_def)

lemma entry_owner:
  "member (catalog_entry users cm tm fm row) (py ''owner'') =
     Some (JObj [(py ''id'', db_owner_id row),
                 (py ''name'', get_or users (db_owner_id row) (JStr (py ''Unknown'')))])"
  by (simp add: catalog_entry_def Let_def py_def)

lemma entry_isSelected:
  "member (catalog_entry users cm tm fm row) (py ''isSelected'') = Some (JBool False)"
  by (simp add: catalog_entry_def Let_def py_def)

lemma entry_keys:
  "keys_of (catalog_entry users cm tm fm row) =
     [py ''id'', py ''name'', py ''description'', py ''type'', py ''owner'',
      py ''contributors'', py ''isPublic'', py ''tags'', py ''lastUpdated'',
      py ''documentCount'', py ''usageCount'', py ''rating'', py ''isSelected'', py ''files'',
      py ''VECTOR_SEARCH_ENABLED'', py ''VECTOR_SEARCH_ENDPOINT'', py ''VECTOR_SEARCH_KEY'',
      py ''VECTOR_SEARCH_INDEX'', py ''VECTOR_SEARCH_SEMANTIC_CONFIG'',
      py ''VECTOR_SEARCH_EMBEDDING_DEPLOYMENT'', py ''VECTOR_SEARCH_EMBEDDING_ENDPOINT'',
      py ''VECTOR_SEARCH_EMBEDDING_KEY'', py ''VECTOR_SEARCH_STORAGE_ENDPOINT'',
      py ''VECTOR_SEARCH_STORAGE_ACCESS_KEY'', py ''VECTOR_SEARCH_STORAGE_CONNECTION_STRING'']"
  by (simp add: catalog_entry_def Let_def)

lemma list_db_main_ok:
  assumes "connect_error db = None"
    and "databases_query db = Inr dbs"
    and "users_query db = Inr us"
    and "contributors_query db = Inr cs"
    and "files_query db = Inr fs"
    and "tags_query db = Inr ts"
  shows "list_db_main db =
     json_response
       (JObj [(py ''databases'',
          JArr (map (catalog_entry (users_dict us) (contributors_map_of cs) (tags_map_of ts)
                       (files_map_of fs)) dbs))])
       200"
  using assms by (simp add: list_db_main_def list_db_try_def)

lemma list_db_main_failed:
  assumes "failures db \<noteq> []"
  shows "list_db_main db = text_response (py ''Error: '' @ str_exn (hd (failures db))) 500"
  using assms
  by (auto simp: list_db_main_def list_db_try_def failures_def split: option.splits sum.splits)

lemma list_db_main_cases:
  "(failures db \<noteq> []
      \<and> list_db_main db = text_response (py ''Error: '' @ str_exn (hd (failures db))) 500)
   \<or> (\<exists>dbs us cs fs ts.
        databases_query db = Inr dbs
        \<and> list_db_main db =
          json_response
            (JObj [(py ''databases'',
               JArr (map (catalog_entry (users_dict us) (contributors_map_of cs)
                            (tags_map_of ts) (files_map_of fs)) dbs))])
            200)"
  by (auto simp: list_db_main_def list_db_try_def failures_def split: option.splits sum.splits)

section \<open>The catalog\<close>

text \<open>
  C7. When every query succeeds the request succeeds with status 200, and the entry built
  for a database row is in the output. If no contributor row, no file row or no tag row
  carries the row's id, the entry holds the empty array under \<open>contributors\<close>, \<open>files\<close> or
  \<open>tags\<close>: the key is present and its value is not null. If no user row carries the row's
  \<open>owner_id\<close>, the owner's name is \<open>Unknown\<close>.
\<close>

theorem unmatched_rows_default:
  assumes "connect_error db = None"
    and "databases_query db = Inr dbs"
    and "users_query db = Inr us"
    and "contributors_query db = Inr cs"
    and "files_query db = Inr fs"
    and "tags_query db = Inr ts"
    and "row \<in> set dbs"
    and "entry = catalog_entry (users_dict us) (contributors_map_of cs) (tags_map_of ts)
                   (files_map_of fs) row"
  shows "\<exists>entries.
           list_db_main db = json_response (JObj [(py ''databases'', JArr entries)]) 200
         \<and> entry \<in> set entries
         \<and> ((\<forall>c\<in>set cs. c_database_id c \<noteq> db_id row)
              \<longrightarrow> member entry (py ''contributors'') = Some (JArr []))
         \<and> ((\<forall>f\<in>set fs. f_database_id f \<noteq> db_id row)
              \<longrightarrow> member entry (py ''files'') = Some (JArr []))
         \<and> ((\<forall>t\<in>set ts. fst t \<noteq> db_id row)
              \<longrightarrow> member entry (py ''tags'') = Some (JArr []))
         \<and> ((\<forall>u\<in>set us. u_id u \<noteq> db_owner_id row)
              \<longrightarrow> member entry (py ''owner'') =
                    Some (JObj [(py ''id'', db_owner_id row),
                                (py ''name'', JStr (py ''Unknown''))]))"
proof -
  let ?f = "catalog_entry (users_dict us) (contributors_map_of cs) (tags_map_of ts)
              (files_map_of fs)"
  have ok: "list_db_main db = json_response (JObj [(py ''databases'', JArr (map ?f dbs))]) 200"
    using assms(1-6) by (rule list_db_main_ok)
  have mem: "entry \<in> set (map ?f dbs)"
    using assms(7,8) by simp
  have c: "(\<forall>c\<in>set cs. c_database_id c \<noteq> db_id row)
             \<longrightarrow> member entry (py ''contributors'') = Some (JArr [])"
    by (simp add: assms(8) entry_contributors get_list_def contributors_map_absent)
  have f: "(\<forall>f\<in>set fs. f_database_id f \<noteq> db_id row)
             \<longrightarrow> member entry (py ''files'') = Some (JArr [])"
    by (simp add: assms(8) entry_files get_list_def files_map_absent)
  have t: "(\<forall>t\<in>set ts. fst t \<noteq> db_id row)
             \<longrightarrow> member entry (py ''tags'') = Some (JArr [])"
    by (simp add: assms(8) entry_tags get_list_def tags_map_absent)
  have u: "(\<forall>u\<in>set us. u_id u \<noteq> db_owner_id row)
             \<longrightarrow> member entry (py ''owner'') =
                   Some (JObj [(py ''id'', db_owner_id row),
                               (py ''name'', JStr (py ''Unknown''))])"
    by (simp add: assms(8) entry_owner get_or_def users_dict_absent)
  from ok mem c f t u show ?thesis
    by blast
qed

lemma example_db_queries:
  "connect_error example_db = None"
  "databases_query example_db = Inr [orphan_row]"
  "users_query example_db = Inr [\<lparr>u_id = JInt 1, u_name = JStr (py ''ada'')\<rparr>]"
  "contributors_query example_db =
     Inr [\<lparr>c_database_id = JInt 8, c_user_id = JInt 1, c_name = JStr (py ''ada'')\<rparr>]"
  "files_query example_db = Inr []"
  "tags_query example_db = Inr [(JInt 8, JStr (py ''nlp''))]"
  by (simp_all add: example_db_def)

lemma orphan_row_ids: "db_id orphan_row = JInt 7" "db_owner_id orphan_row = JInt 42"
  by (simp_all add: orphan_row_def)

theorem unmatched_rows_default_witness:
  "status_code (list_db_main example_db) = 200
   \<and> member (catalog_entry (users_dict [\<lparr>u_id = JInt 1, u_name = JStr (py ''ada'')\<rparr>])
         (contributors_map_of
            [\<lparr>c_database_id = JInt 8, c_user_id = JInt 1, c_name = JStr (py ''ada'')\<rparr>])
         (tags_map_of [(JInt 8, JStr (py ''nlp''))]) (files_map_of []) orphan_row)
       (py ''contributors'') = Some (JArr [])
   \<and> member (catalog_entry (users_dict [\<lparr>u_id = JInt 1, u_name = JStr (py ''ada'')\<rparr>])
         (contributors_map_of
            [\<lparr>c_database_id = JInt 8, c_user_id = JInt 1, c_name = JStr (py ''ada'')\<rparr>])
         (tags_map_of [(JInt 8, JStr (py ''nlp''))]) (files_map_of []) orphan_row)
       (py ''files'') = Some (JArr [])
   \<and> member (catalog_entry (users_dict [\<lparr>u_id = JInt 1, u_name = JStr (py ''ada'')\<rparr>])
         (contributors_map_of
            [\<lparr>c_database_id = JInt 8, c_user_id = JInt 1, c_name = JStr (py ''ada'')\<rparr>])
         (tags_map_of [(JInt 8, JStr (py ''nlp''))]) (files_map_of []) orphan_row)
       (py ''tags'') = Some (JArr [])
   \<and> member (catalog_entry (users_dict [\<lparr>u_id = JInt 1, u_name = JStr (py ''ada'')\<rparr>])
         (contributors_map_of
            [\<lparr>c_database_id = JInt 8, c_user_id = JInt 1, c_name = JStr (py ''ada'')\<rparr>])
         (tags_map_of [(JInt 8, JStr (py ''nlp''))]) (files_map_of []) orphan_row)
       (py ''owner'') = Some (JObj [(py ''id'', JInt 42), (py ''name'', JStr (py ''Unknown''))])"
proof -
  have "orphan_row \<in> set [orphan_row]" by simp
  from unmatched_rows_default [OF example_db_queries this refl]
  show ?thesis
    by (auto simp: orphan_row_ids json_response_def)
qed

text \<open>
  C8. If any of the five queries fails, the response is the 500 text response made of
  \<open>Error: \<close> and the message of the first failure, whatever rows the other queries
  returned: its body is not JSON and holds no part of the catalog.
\<close>

theorem query_failure_aborts:
  assumes "(\<exists>e. databases_query db = Inl e) \<or> (\<exists>e. users_query db = Inl e)
         \<or> (\<exists>e. contributors_query db = Inl e) \<or> (\<exists>e. files_query db = Inl e)
         \<or> (\<exists>e. tags_query db = Inl e)"
  shows "failures db \<noteq> []
       \<and> list_db_main db = text_response (py ''Error: '' @ str_exn (hd (failures db))) 500
       \<and> status_code (list_db_main db) = 500
       \<and> body (list_db_main db) = Text (py ''Error: '' @ str_exn (hd (failures db)))"
proof -
  from assms have ne: "failures db \<noteq> []"
    by (auto simp: failures_def)
  from list_db_main_failed [OF ne] ne show ?thesis
    by (simp add: text_response_def)
qed

theorem query_failure_aborts_witness:
  "list_db_main refused_db =
     text_response
       (py ''Error: 1142 (42000): SELECT command denied to user lister for table databases'')
       500"
proof -
  have q: "databases_query refused_db =
      Inl (Exn ''ProgrammingError''
        (py ''1142 (42000): SELECT command denied to user lister for table databases''))"
    by (simp add: refused_db_def)
  have f: "failures refused_db =
      [Exn ''ProgrammingError''
        (py ''1142 (42000): SELECT command denied to user lister for table databases'')]"
    by (simp add: failures_def refused_db_def example_db_def)
  from q have "(\<exists>e. databases_query refused_db = Inl e) \<or> (\<exists>e. users_query refused_db = Inl e)
         \<or> (\<exists>e. contributors_query refused_db = Inl e) \<or> (\<exists>e. files_query refused_db = Inl e)
         \<or> (\<exists>e. tags_query refused_db = Inl e)"
    by blast
  from query_failure_aborts [OF this] show ?thesis
    by (simp add: f py_def)
qed

text \<open>
  C10. Whenever the lister answers with JSON, the document is the \<open>databases\<close> envelope,
  and every entry in it has the 25 keys below, \<open>isSelected\<close> among them between \<open>rating\<close>
  and \<open>files\<close>, and the value of \<open>isSelected\<close> is \<open>false\<close>.
\<close>

theorem is_selected_always_false:
  assumes "body (list_db_main db) = JsonDumps v"
  shows "\<exists>entries.
           v = JObj [(py ''databases'', JArr entries)]
         \<and> (\<forall>e\<in>set entries.
               member e (py ''isSelected'') = Some (JBool False)
             \<and> keys_of e =
                 [py ''id'', py ''name'', py ''description'', py ''type'', py ''owner'',
                  py ''contributors'', py ''isPublic'', py ''tags'', py ''lastUpdated'',
                  py ''documentCount'', py ''usageCount'', py ''rating'', py ''isSelected'',
                  py ''files'', py ''VECTOR_SEARCH_ENABLED'', py ''VECTOR_SEARCH_ENDPOINT'',
                  py ''VECTOR_SEARCH_KEY'', py ''VECTOR_SEARCH_INDEX'',
                  py ''VECTOR_SEARCH_SEMANTIC_CONFIG'', py ''VECTOR_SEARCH_EMBEDDING_DEPLOYMENT'',
                  py ''VECTOR_SEARCH_EMBEDDING_ENDPOINT'', py ''VECTOR_SEARCH_EMBEDDING_KEY'',
                  py ''VECTOR_SEARCH_STORAGE_ENDPOINT'', py ''VECTOR_SEARCH_STORAGE_ACCESS_KEY'',
                  py ''VECTOR_SEARCH_STORAGE_CONNECTION_STRING''])"
proof -
  from list_db_main_cases [of db] show ?thesis
  proof
    assume "failures db \<noteq> []
      \<and> list_db_main db = text_response (py ''Error: '' @ str_exn (hd (failures db))) 500"
    with assms show ?thesis
      by (simp add: text_response_def)
  next
    assume "\<exists>dbs us cs fs ts.
        databases_query db = Inr dbs
        \<and> list_db_main db =
          json_response
            (JObj [(py ''databases'',
               JArr (map (catalog_entry (users_dict us) (contributors_map_of cs)
                            (tags_map_of ts) (files_map_of fs)) dbs))])
            200"
    then obtain dbs us cs fs ts where
      r: "list_db_main db =
          json_response
            (JObj [(py ''databases'',
               JArr (map (catalog_entry (users_dict us) (contributors_map_of cs)
                            (tags_map_of ts) (files_map_of fs)) dbs))])
            200"
      by blast
    from r assms have
      v: "v = JObj [(py ''databases'',
               JArr (map (catalog_entry (users_dict us) (contributors_map_of cs)
                            (tags_map_of ts) (files_map_of fs)) dbs))]"
      by (simp add: json_response_def)
    show ?thesis
      unfolding v by (auto simp: entry_isSelected entry_keys)
  qed
qed

theorem is_selected_always_false_witness:
  "\<exists>entries.
     body (list_db_main example_db) = JsonDumps (JObj [(py ''databases'', JArr entries)])
   \<and> length entries = 1
   \<and> member (hd entries) (py ''isSelected'') = Some (JBool False)"
proof -
  let ?f = "catalog_entry (users_dict [\<lparr>u_id = JInt 1, u_name = JStr (py ''ada'')\<rparr>])
         (contributors_map_of
            [\<lparr>c_database_id = JInt 8, c_user_id = JInt 1, c_name = JStr (py ''ada'')\<rparr>])
         (tags_map_of [(JInt 8, JStr (py ''nlp''))]) (files_map_of [])"
  have b: "body (list_db_main example_db) =
      JsonDumps (JObj [(py ''databases'', JArr [?f orphan_row])])"
    using list_db_main_ok [OF example_db_queries] by (simp add: json_response_def)
  from is_selected_always_false [OF b] show ?thesis
    using b by auto
qed

section \<open>Failure responses\<close>

lemma provision_ok_200:
  assumes "provision sub rg loc sb cb ix t_storage t_search w = (Inr r, w')"
  shows "status_code r = 200"
  using assms
  unfolding provision_def Let_def
  by (auto simp: json_response_def split: prod.splits sum.splits)

text \<open>
  C9, as the claim states it, fails: the body of a 500 response carries the text of the
  exception. When the connection cannot be opened the lister's body names the database host
  and port; when the first query is refused it names the user and the table; the two bodies
  differ, so the message is not a generic one.
\<close>

theorem error_body_exposes_detail:
  "body (list_db_main unreachable_db) =
     Text (py ''Error: 2003: Can not connect to MySQL server on db.internal:3306 (timed out)'')
   \<and> body (list_db_main refused_db) =
     Text (py ''Error: 1142 (42000): SELECT command denied to user lister for table databases'')
   \<and> body (list_db_main unreachable_db) \<noteq> body (list_db_main refused_db)"
  by (simp add: list_db_main_def list_db_try_def unreachable_db_def refused_db_def
      example_db_def text_response_def py_def)

text \<open>
  C9, amended. Every response of either handler whose status is not 200 is a plain-text
  response with no structured body and no error code. The provisioner answers with one of
  three fixed messages (invalid JSON and invalid title with 400, missing configuration with
  500) or, when an exception is raised while provisioning, with 500 and \<open>Error: \<close>
  followed by the text of that exception. The lister answers with 500 and \<open>Error: \<close>
  followed by the text of the first exception the store raised.
\<close>

theorem failure_responses_plain_text:
  "(create_db_main u env t_storage t_search req w = (Inr r, w') \<and> status_code r \<noteq> 200
     \<longrightarrow> mimetype r = ''text/plain''
         \<and> (r = text_response (py ''Invalid JSON body'') 400
            \<or> r = text_response
                  (py ''Missing or invalid '' @ [39] @ py ''title'' @ [39]
                     @ py '' in request body'') 400
            \<or> r = text_response
                  (py ''Missing required environment variables: AZURE_SUBSCRIPTION_ID or AZURE_RESOURCE_GROUP'')
                  500
            \<or> (\<exists>e sub rg.
                  env (py ''AZURE_SUBSCRIPTION_ID'') = Some sub
                \<and> env (py ''AZURE_RESOURCE_GROUP'') = Some rg
                \<and> provision sub rg
                     (environ_get env (py ''AZURE_LOCATION'') (py ''eastus''))
                     (environ_get env (py ''STORAGE_ACCOUNT_BASE'') (py ''mystorageacct''))
                     (environ_get env (py ''SEARCH_ACCOUNT_BASE'') (py ''mysearchacct''))
                     (environ_get env (py ''SEARCH_INDEX_NAME'') (py ''rag-vector-index''))
                     t_storage t_search w = (Inl e, w')
                \<and> r = text_response (py ''Error: '' @ str_exn e) 500)))
   \<and> (status_code (list_db_main db) \<noteq> 200
     \<longrightarrow> mimetype (list_db_main db) = ''text/plain''
         \<and> failures db \<noteq> []
         \<and> list_db_main db = text_response (py ''Error: '' @ str_exn (hd (failures db))) 500)"
proof (intro conjI impI)
  assume a: "create_db_main u env t_storage t_search req w = (Inr r, w') \<and> status_code r \<noteq> 200"
  let ?p = "provision (the (env (py ''AZURE_SUBSCRIPTION_ID''))) (the (env (py ''AZURE_RESOURCE_GROUP'')))
                     (environ_get env (py ''AZURE_LOCATION'') (py ''eastus''))
                     (environ_get env (py ''STORAGE_ACCOUNT_BASE'') (py ''mystorageacct''))
                     (environ_get env (py ''SEARCH_ACCOUNT_BASE'') (py ''mysearchacct''))
                     (environ_get env (py ''SEARCH_INDEX_NAME'') (py ''rag-vector-index''))
                     t_storage t_search w"
  have ok: "?p = (Inr x, y) \<Longrightarrow> status_code x = 200" for x y
    by (rule provision_ok_200)
  from a ok have d:
    "r = text_response (py ''Invalid JSON body'') 400
     \<or> r = text_response
           (py ''Missing or invalid '' @ [39] @ py ''title'' @ [39]
              @ py '' in request body'') 400
     \<or> r = text_response
           (py ''Missing required environment variables: AZURE_SUBSCRIPTION_ID or AZURE_RESOURCE_GROUP'')
           500
     \<or> (\<exists>e sub rg.
           env (py ''AZURE_SUBSCRIPTION_ID'') = Some sub
         \<and> env (py ''AZURE_RESOURCE_GROUP'') = Some rg
         \<and> provision sub rg
              (environ_get env (py ''AZURE_LOCATION'') (py ''eastus''))
              (environ_get env (py ''STORAGE_ACCOUNT_BASE'') (py ''mystorageacct''))
              (environ_get env (py ''SEARCH_ACCOUNT_BASE'') (py ''mysearchacct''))
              (environ_get env (py ''SEARCH_INDEX_NAME'') (py ''rag-vector-index''))
              t_storage t_search w = (Inl e, w')
         \<and> r = text_response (py ''Error: '' @ str_exn e) 500)"
    unfolding create_db_main_def Let_def
    by (auto split: option.splits sum.splits if_splits prod.splits)
  then show "mimetype r = ''text/plain''"
    by (auto simp: text_response_def)
  from d show
    "r = text_response (py ''Invalid JSON body'') 400
     \<or> r = text_response
           (py ''Missing or invalid '' @ [39] @ py ''title'' @ [39]
              @ py '' in request body'') 400
     \<or> r = text_response
           (py ''Missing required environment variables: AZURE_SUBSCRIPTION_ID or AZURE_RESOURCE_GROUP'')
           500
     \<or> (\<exists>e sub rg.
           env (py ''AZURE_SUBSCRIPTION_ID'') = Some sub
         \<and> env (py ''AZURE_RESOURCE_GROUP'') = Some rg
         \<and> provision sub rg
              (environ_get env (py ''AZURE_LOCATION'') (py ''eastus''))
              (environ_get env (py ''STORAGE_ACCOUNT_BASE'') (py ''mystorageacct''))
              (environ_get env (py ''SEARCH_ACCOUNT_BASE'') (py ''mysearchacct''))
              (environ_get env (py ''SEARCH_INDEX_NAME'') (py ''rag-vector-index''))
              t_storage t_search w = (Inl e, w')
         \<and> r = text_response (py ''Error: '' @ str_exn e) 500)" .
next
  assume b: "status_code (list_db_main db) \<noteq> 200"
  from list_db_main_cases [of db] b have
    f: "failures db \<noteq> []
        \<and> list_db_main db = text_response (py ''Error: '' @ str_exn (hd (failures db))) 500"
    by (auto simp: json_response_def)
  then show "mimetype (list_db_main db) = ''text/plain''"
    by (simp add: text_response_def)
  from f show "failures db \<noteq> []" by simp
  from f show "list_db_main db = text_response (py ''Error: '' @ str_exn (hd (failures db))) 500"
    by simp
qed

lemma unauthenticated_run:
  "create_db_main plain_unicode example_env 0 0
       \<lparr>req_json = Some (JObj [(py ''title'', JStr (py ''Research Papers''))])\<rparr>
       unauthenticated_world =
     (Inr (text_response
        (py ''Error: DefaultAzureCredential failed to retrieve a token from the included credentials'')
        500),
      unauthenticated_world\<lparr>calls := [DefaultAzureCredential]\<rparr>)"
proof -
  have s: "strip plain_unicode (py ''Research Papers'') \<noteq> []"
    by (simp add: strip_def is_space_def py_def)
  have ne: "py ''Research Papers'' \<noteq> []" "py ''sub-1'' \<noteq> []" "py ''rg-1'' \<noteq> []"
    by (simp_all add: py_def)
  have p: "provision (py ''sub-1'') (py ''rg-1'') (py ''eastus'') (py ''mystorageacct'')
       (py ''mysearchacct'') (py ''rag-vector-index'') 0 0 unauthenticated_world =
     (Inl (Exn ''ClientAuthenticationError''
        (py ''DefaultAzureCredential failed to retrieve a token from the included credentials'')),
      unauthenticated_world\<lparr>calls := [DefaultAzureCredential]\<rparr>)"
    by (simp add: provision_def new_client_def invoke_def Let_def unauthenticated_world_def
        fresh_world_def)
  have m: "py ''Error: '' @ py ''DefaultAzureCredential failed to retrieve a token from the included credentials''
      = py ''Error: DefaultAzureCredential failed to retrieve a token from the included credentials''"
    by (simp add: py_def)
  show ?thesis
    using s ne
    by (simp add: create_db_main_def example_env_values environ_get_def Let_def p m)
qed

theorem failure_responses_plain_text_witness:
  "mimetype (text_response
      (py ''Error: DefaultAzureCredential failed to retrieve a token from the included credentials'')
      500) = ''text/plain''
   \<and> mimetype (list_db_main unreachable_db) = ''text/plain''
   \<and> list_db_main unreachable_db =
       text_response (py ''Error: '' @ str_exn (hd (failures unreachable_db))) 500"
proof -
  have c: "status_code (text_response
      (py ''Error: DefaultAzureCredential failed to retrieve a token from the included credentials'')
      500) \<noteq> 200"
    by (simp add: text_response_def)
  have l: "status_code (list_db_main unreachable_db) \<noteq> 200"
    by (simp add: list_db_main_def list_db_try_def unreachable_db_def text_response_def)
  from failure_responses_plain_text [of plain_unicode example_env 0 0
      "\<lparr>req_json = Some (JObj [(py ''title'', JStr (py ''Research Papers''))])\<rparr>"
      unauthenticated_world
      "text_response
        (py ''Error: DefaultAzureCredential failed to retrieve a token from the included credentials'')
        500"
      "unauthenticated_world\<lparr>calls := [DefaultAzureCredential]\<rparr>" unreachable_db]
    unauthenticated_run c l
  show ?thesis
    by blast
qed

end
